theory Spec2Isabelle
  imports Complex_Main
begin

section \<open>The benchmark plotting script \<^verbatim>\<open>analysis.py\<close>\<close>

text \<open>
  The script is a straight line of library calls: two \<^verbatim>\<open>pd.read_csv\<close> loads, then for
  each of the two instances a block of \<^verbatim>\<open>matplotlib.pyplot\<close> calls ending in
  \<^verbatim>\<open>savefig\<close> and \<^verbatim>\<open>close\<close>. Nothing is caught: the first call that raises ends the run.

  The embedding keeps that shape. The process state is a record \<open>world\<close> (the files of the
  working directory, the open pyplot figures, and the log of the library calls that
  returned). A statement is a function from the state to an error or the next state, and a
  block is a list of statements run in order up to the first error. The two parts of the
  libraries that the script cannot see into, the CSV parser behind \<^verbatim>\<open>read_csv\<close> and the PNG
  encoder behind \<^verbatim>\<open>savefig\<close>, are parameters (record \<open>lib\<close>), so every theorem holds for any
  parser and any encoder. Writing a file is taken to succeed (the working directory is
  writable).
\<close>

subsection \<open>Tables\<close>

text \<open>
  A cell of a loaded table: a number, a missing value, or text that the loader left as it was.
\<close>

datatype cell = Num real | NaN | Str string

text \<open>
  A loaded table (\<^verbatim>\<open>DataFrame\<close>): the column labels of the header and the data rows in file
  order; a row is read by column label.
\<close>

record DataFrame =
  columns :: "string list"
  rows :: "(string \<Rightarrow> cell) list"

datatype error =
    FileNotFoundError string
  | ParseError string
  | KeyError string
  | ValueError string

text \<open>\<^verbatim>\<open>df[key]\<close>: the column as a sequence in row order, \<^verbatim>\<open>KeyError\<close> for an unknown label.\<close>

definition getitem :: "DataFrame \<Rightarrow> string \<Rightarrow> error + cell list" where
  "getitem df key =
     (if key \<in> set (columns df) then Inr (map (\<lambda>r. r key) (rows df)) else Inl (KeyError key))"

subsection \<open>Figures\<close>

record Line2D =
  xdata :: "cell list"
  ydata :: "cell list"
  label :: string

record Axes =
  geometry :: "nat \<times> nat \<times> nat"
  lines :: "Line2D list"
  xlabel_of :: string
  ylabel_of :: string
  title_of :: string
  legend_of :: "string list option"
  grid_of :: bool

record Figure =
  figsize :: "real \<times> real"
  axs :: "Axes list"
  tight :: bool

definition new_axes :: "nat \<times> nat \<times> nat \<Rightarrow> Axes" where
  "new_axes g = \<lparr>geometry = g, lines = [], xlabel_of = [], ylabel_of = [], title_of = [],
                 legend_of = None, grid_of = False\<rparr>"

definition new_figure :: "real \<Rightarrow> real \<Rightarrow> Figure" where
  "new_figure wd ht = \<lparr>figsize = (wd, ht), axs = [], tight = False\<rparr>"

subsection \<open>Process state\<close>

text \<open>The library calls that returned, with their arguments, in the order they were made.\<close>

datatype call =
    Call_use string
  | Call_read_csv string
  | Call_figure real real
  | Call_subplot nat nat nat
  | Call_plot "cell list" "cell list" string
  | Call_xlabel string
  | Call_ylabel string
  | Call_title string
  | Call_legend
  | Call_grid bool
  | Call_tight_layout
  | Call_savefig string Figure
  | Call_close

record world =
  files :: "string \<Rightarrow> string option"
  backend :: "string option"
  figures :: "Figure list"
  calls :: "call list"

text \<open>A fresh interpreter in a working directory with files \<open>fs\<close>.\<close>

definition fresh :: "(string \<Rightarrow> string option) \<Rightarrow> world" where
  "fresh fs = \<lparr>files = fs, backend = None, figures = [], calls = []\<rparr>"

record lib =
  parse_csv :: "string \<Rightarrow> DataFrame option"
  encode_png :: "Figure \<Rightarrow> string"

type_synonym stmt = "world \<Rightarrow> error + world"

definition logged :: "call \<Rightarrow> world \<Rightarrow> world" where
  "logged c w = w\<lparr>calls := calls w @ [c]\<rparr>"

subsection \<open>The library calls\<close>

text \<open>\<^verbatim>\<open>matplotlib.use(b)\<close>.\<close>

definition use :: "string \<Rightarrow> world \<Rightarrow> world" where
  "use b w = logged (Call_use b) (w\<lparr>backend := Some b\<rparr>)"

text \<open>
  \<^verbatim>\<open>pd.read_csv(path)\<close>: \<^verbatim>\<open>FileNotFoundError\<close> when there is no such file; \<open>ParseError\<close>,
  which stands for whatever pandas raises on the text of a file that exists
  (\<^verbatim>\<open>EmptyDataError\<close> for an empty file, \<^verbatim>\<open>ParserError\<close> for a ragged line), when the parser
  rejects it; the table otherwise. Nothing is written.
\<close>

definition read_csv :: "lib \<Rightarrow> string \<Rightarrow> world \<Rightarrow> error + (DataFrame \<times> world)" where
  "read_csv L path w =
     (case files w path of
        None \<Rightarrow> Inl (FileNotFoundError path)
      | Some txt \<Rightarrow>
          (case parse_csv L txt of
             None \<Rightarrow> Inl (ParseError path)
           | Some df \<Rightarrow> Inr (df, logged (Call_read_csv path) w)))"

text \<open>
  pyplot keeps a stack of open figures, the current one last, and each figure a stack of
  axes, the current one last. \<open>gcf\<close> and \<open>gca\<close> make a default figure or axes when there is
  none.
\<close>

definition gcf :: "world \<Rightarrow> world" where
  "gcf w = (if figures w = [] then w\<lparr>figures := [new_figure (64 / 10) (48 / 10)]\<rparr> else w)"

definition on_figure :: "(Figure \<Rightarrow> Figure) \<Rightarrow> world \<Rightarrow> world" where
  "on_figure f w =
     (let w1 = gcf w in w1\<lparr>figures := butlast (figures w1) @ [f (last (figures w1))]\<rparr>)"

definition gca :: "Figure \<Rightarrow> Figure" where
  "gca fg = (if axs fg = [] then fg\<lparr>axs := [new_axes (1, 1, 1)]\<rparr> else fg)"

definition on_axes :: "(Axes \<Rightarrow> Axes) \<Rightarrow> world \<Rightarrow> world" where
  "on_axes f w =
     on_figure (\<lambda>fg. let fg1 = gca fg in fg1\<lparr>axs := butlast (axs fg1) @ [f (last (axs fg1))]\<rparr>) w"

text \<open>\<^verbatim>\<open>plt.figure(figsize=(wd, ht))\<close>: a new figure, made current.\<close>

definition figure :: "real \<Rightarrow> real \<Rightarrow> stmt" where
  "figure wd ht w =
     Inr (logged (Call_figure wd ht) (w\<lparr>figures := figures w @ [new_figure wd ht]\<rparr>))"

text \<open>
  \<^verbatim>\<open>plt.subplot(r, c, i)\<close>: the axes at that place of the current figure become current,
  created when the figure has none there.
\<close>

definition select_axes :: "nat \<times> nat \<times> nat \<Rightarrow> Figure \<Rightarrow> Figure" where
  "select_axes g fg =
     (case filter (\<lambda>a. geometry a = g) (axs fg) of
        [] \<Rightarrow> fg\<lparr>axs := axs fg @ [new_axes g]\<rparr>
      | a # _ \<Rightarrow> fg\<lparr>axs := filter (\<lambda>a. geometry a \<noteq> g) (axs fg) @ [a]\<rparr>)"

definition subplot :: "nat \<Rightarrow> nat \<Rightarrow> nat \<Rightarrow> stmt" where
  "subplot r c i w =
     (if i < 1 \<or> r * c < i then Inl (ValueError ''num must be an integer with 1 <= num <= nrows*ncols'')
      else Inr (logged (Call_subplot r c i) (on_figure (select_axes (r, c, i)) w)))"

text \<open>
  \<^verbatim>\<open>plt.plot(xs, ys, label=lbl)\<close>: one more line on the current axes. The cells are stored
  as they are and not inspected: what matplotlib does with text or missing cells is outside
  the model.
\<close>

definition plot :: "cell list \<Rightarrow> cell list \<Rightarrow> string \<Rightarrow> stmt" where
  "plot xs ys lbl w =
     (if length xs \<noteq> length ys then Inl (ValueError ''x and y must have same first dimension'')
      else Inr (logged (Call_plot xs ys lbl)
                  (on_axes (\<lambda>a. a\<lparr>lines := lines a @ [\<lparr>xdata = xs, ydata = ys, label = lbl\<rparr>]\<rparr>) w)))"

text \<open>
  \<^verbatim>\<open>plt.plot(df[xcol], df[ycol], label=lbl)\<close>: the two column reads are evaluated first,
  left to right, and either can raise before \<^verbatim>\<open>plot\<close> is entered.
\<close>

definition plot_columns :: "DataFrame \<Rightarrow> string \<Rightarrow> string \<Rightarrow> string \<Rightarrow> stmt" where
  "plot_columns df xcol ycol lbl w =
     (case getitem df xcol of
        Inl e \<Rightarrow> Inl e
      | Inr xs \<Rightarrow> (case getitem df ycol of Inl e \<Rightarrow> Inl e | Inr ys \<Rightarrow> plot xs ys lbl w))"

definition xlabel :: "string \<Rightarrow> stmt" where
  "xlabel s w = Inr (logged (Call_xlabel s) (on_axes (\<lambda>a. a\<lparr>xlabel_of := s\<rparr>) w))"

definition ylabel :: "string \<Rightarrow> stmt" where
  "ylabel s w = Inr (logged (Call_ylabel s) (on_axes (\<lambda>a. a\<lparr>ylabel_of := s\<rparr>) w))"

definition title :: "string \<Rightarrow> stmt" where
  "title s w = Inr (logged (Call_title s) (on_axes (\<lambda>a. a\<lparr>title_of := s\<rparr>) w))"

text \<open>\<^verbatim>\<open>plt.legend()\<close>: one entry per labelled line of the current axes.\<close>

definition legend :: stmt where
  "legend w = Inr (logged Call_legend (on_axes (\<lambda>a. a\<lparr>legend_of := Some (map label (lines a))\<rparr>) w))"

definition grid :: "bool \<Rightarrow> stmt" where
  "grid b w = Inr (logged (Call_grid b) (on_axes (\<lambda>a. a\<lparr>grid_of := b\<rparr>) w))"

definition tight_layout :: stmt where
  "tight_layout w = Inr (logged Call_tight_layout (on_figure (\<lambda>fg. fg\<lparr>tight := True\<rparr>) w))"

text \<open>\<^verbatim>\<open>plt.savefig(path)\<close>: the current figure, encoded, replaces the file at \<open>path\<close>.\<close>

definition savefig :: "lib \<Rightarrow> string \<Rightarrow> stmt" where
  "savefig L path w =
     (let w1 = gcf w; fg = last (figures w1)
      in Inr (logged (Call_savefig path fg) (w1\<lparr>files := (files w1)(path \<mapsto> encode_png L fg)\<rparr>)))"

text \<open>\<^verbatim>\<open>plt.close()\<close>: the current figure is dropped; the one opened before it is current again.\<close>

definition close :: stmt where
  "close w = Inr (logged Call_close (w\<lparr>figures := butlast (figures w)\<rparr>))"

subsection \<open>Running statements\<close>

text \<open>
  Statements run in order. The first error ends the run; the state it leaves is the state
  before the statement that raised.
\<close>

fun exec :: "stmt list \<Rightarrow> world \<Rightarrow> error option \<times> world" where
  "exec [] w = (None, w)"
| "exec (s # ss) w = (case s w of Inl e \<Rightarrow> (Some e, w) | Inr w' \<Rightarrow> exec ss w')"

subsection \<open>The script\<close>

abbreviation micro :: char where
  "micro \<equiv> CHR 0xB5"

text \<open>Lines 13 to 37.\<close>

definition bays29_block :: "lib \<Rightarrow> DataFrame \<Rightarrow> stmt list" where
  "bays29_block L df_bays29 =
     [ figure 14 6,
       subplot 1 2 1,
       plot_columns df_bays29 ''Run'' ''2-opt Distance'' ''2-opt Distance'',
       plot_columns df_bays29 ''Run'' ''Swap Distance'' ''Swap Distance'',
       xlabel ''Run'',
       ylabel ''Distance'',
       title ''Distances for bays29 Instance'',
       legend,
       grid True,
       subplot 1 2 2,
       plot_columns df_bays29 ''Run'' (''2-opt Time ('' @ micro # ''s)'') (''2-opt Time ('' @ micro # ''s)''),
       plot_columns df_bays29 ''Run'' (''Swap Time ('' @ micro # ''s)'') (''Swap Time ('' @ micro # ''s)''),
       xlabel ''Run'',
       ylabel (''Time ('' @ micro # ''s)''),
       title ''Times for bays29 Instance'',
       legend,
       grid True,
       tight_layout,
       savefig L ''bays29_benchmark.png'',
       close ]"

text \<open>Lines 40 to 64.\<close>

definition brg180_block :: "lib \<Rightarrow> DataFrame \<Rightarrow> stmt list" where
  "brg180_block L df_brg180 =
     [ figure 14 6,
       subplot 1 2 1,
       plot_columns df_brg180 ''Run'' ''2-opt Distance'' ''2-opt Distance'',
       plot_columns df_brg180 ''Run'' ''Swap Distance'' ''Swap Distance'',
       xlabel ''Run'',
       ylabel ''Distance'',
       title ''Distances for brg180 Instance'',
       legend,
       grid True,
       subplot 1 2 2,
       plot_columns df_brg180 ''Run'' (''2-opt Time ('' @ micro # ''s)'') (''2-opt Time ('' @ micro # ''s)''),
       plot_columns df_brg180 ''Run'' (''Swap Time ('' @ micro # ''s)'') (''Swap Time ('' @ micro # ''s)''),
       xlabel ''Run'',
       ylabel (''Time ('' @ micro # ''s)''),
       title ''Times for brg180 Instance'',
       legend,
       grid True,
       tight_layout,
       savefig L ''brg180_benchmark.png'',
       close ]"

text \<open>
  The whole module, lines 6 to 64: the backend, the two loads, then the two blocks. An error
  is returned with the state at the point where it was raised.
\<close>

definition script :: "lib \<Rightarrow> world \<Rightarrow> error option \<times> world" where
  "script L w0 =
     (let w1 = use ''Agg'' w0 in
      case read_csv L ''bays29_benchmark_results.csv'' w1 of
        Inl e \<Rightarrow> (Some e, w1)
      | Inr (df_bays29, w2) \<Rightarrow>
          (case read_csv L ''brg180_benchmark_results.csv'' w2 of
             Inl e \<Rightarrow> (Some e, w2)
           | Inr (df_brg180, w3) \<Rightarrow>
               (case exec (bays29_block L df_bays29) w3 of
                  (Some e, w4) \<Rightarrow> (Some e, w4)
                | (None, w4) \<Rightarrow> exec (brg180_block L df_brg180) w4)))"

definition run :: "lib \<Rightarrow> (string \<Rightarrow> string option) \<Rightarrow> error option \<times> world" where
  "run L fs = script L (fresh fs)"

subsection \<open>What the script is expected to draw\<close>

text \<open>
  The five column labels the blocks read, in the order in which a block first reads each.
\<close>

definition required :: "string list" where
  "required =
     [''Run'', ''2-opt Distance'', ''Swap Distance'',
      ''2-opt Time ('' @ micro # ''s)'', ''Swap Time ('' @ micro # ''s)'']"

definition has_required :: "DataFrame \<Rightarrow> bool" where
  "has_required df = (set required \<subseteq> set (columns df))"

definition first_missing :: "DataFrame \<Rightarrow> string" where
  "first_missing df = hd (filter (\<lambda>c. c \<notin> set (columns df)) required)"

definition column :: "DataFrame \<Rightarrow> string \<Rightarrow> cell list" where
  "column df c = map (\<lambda>r. r c) (rows df)"

text \<open>The line that plots column \<open>c\<close> against \<^verbatim>\<open>Run\<close>.\<close>

definition series :: "DataFrame \<Rightarrow> string \<Rightarrow> Line2D" where
  "series df c = \<lparr>xdata = column df ''Run'', ydata = column df c, label = c\<rparr>"

text \<open>
  The two blocks differ in the table, the instance name inside the two titles and the
  output file name. \<open>render_block\<close> is their common text with the name left open;
  \<open>chart\<close> is the figure a block has built when it reaches \<^verbatim>\<open>savefig\<close>, and \<open>block_calls\<close>
  the calls a whole block makes. Lemmas \<open>bays29_block_eq\<close>, \<open>brg180_block_eq\<close> and
  \<open>render_block_ok\<close> below tie them to the two blocks of the script.
\<close>

definition render_block :: "lib \<Rightarrow> string \<Rightarrow> DataFrame \<Rightarrow> stmt list" where
  "render_block L name df =
     [ figure 14 6,
       subplot 1 2 1,
       plot_columns df ''Run'' ''2-opt Distance'' ''2-opt Distance'',
       plot_columns df ''Run'' ''Swap Distance'' ''Swap Distance'',
       xlabel ''Run'',
       ylabel ''Distance'',
       title (''Distances for '' @ name @ '' Instance''),
       legend,
       grid True,
       subplot 1 2 2,
       plot_columns df ''Run'' (''2-opt Time ('' @ micro # ''s)'') (''2-opt Time ('' @ micro # ''s)''),
       plot_columns df ''Run'' (''Swap Time ('' @ micro # ''s)'') (''Swap Time ('' @ micro # ''s)''),
       xlabel ''Run'',
       ylabel (''Time ('' @ micro # ''s)''),
       title (''Times for '' @ name @ '' Instance''),
       legend,
       grid True,
       tight_layout,
       savefig L (name @ ''_benchmark.png''),
       close ]"

definition chart :: "string \<Rightarrow> DataFrame \<Rightarrow> Figure" where
  "chart name df =
     \<lparr>figsize = (14, 6),
      axs =
        [\<lparr>geometry = (1, 2, 1),
          lines = [series df ''2-opt Distance'', series df ''Swap Distance''],
          xlabel_of = ''Run'',
          ylabel_of = ''Distance'',
          title_of = ''Distances for '' @ name @ '' Instance'',
          legend_of = Some [''2-opt Distance'', ''Swap Distance''],
          grid_of = True\<rparr>,
         \<lparr>geometry = (1, 2, 2),
          lines = [series df (''2-opt Time ('' @ micro # ''s)''),
                   series df (''Swap Time ('' @ micro # ''s)'')],
          xlabel_of = ''Run'',
          ylabel_of = ''Time ('' @ micro # ''s)'',
          title_of = ''Times for '' @ name @ '' Instance'',
          legend_of = Some [''2-opt Time ('' @ micro # ''s)'', ''Swap Time ('' @ micro # ''s)''],
          grid_of = True\<rparr>],
      tight = True\<rparr>"

definition plot_call :: "DataFrame \<Rightarrow> string \<Rightarrow> call" where
  "plot_call df c = Call_plot (column df ''Run'') (column df c) c"

definition block_calls :: "string \<Rightarrow> DataFrame \<Rightarrow> call list" where
  "block_calls name df =
     [Call_figure 14 6,
      Call_subplot 1 2 1,
      plot_call df ''2-opt Distance'',
      plot_call df ''Swap Distance'',
      Call_xlabel ''Run'',
      Call_ylabel ''Distance'',
      Call_title (''Distances for '' @ name @ '' Instance''),
      Call_legend,
      Call_grid True,
      Call_subplot 1 2 2,
      plot_call df (''2-opt Time ('' @ micro # ''s)''),
      plot_call df (''Swap Time ('' @ micro # ''s)''),
      Call_xlabel ''Run'',
      Call_ylabel (''Time ('' @ micro # ''s)''),
      Call_title (''Times for '' @ name @ '' Instance''),
      Call_legend,
      Call_grid True,
      Call_tight_layout,
      Call_savefig (name @ ''_benchmark.png'') (chart name df),
      Call_close]"

text \<open>The calls made before the first block, and the state in which the first block starts.\<close>

definition startup_calls :: "call list" where
  "startup_calls =
     [Call_use ''Agg'',
      Call_read_csv ''bays29_benchmark_results.csv'',
      Call_read_csv ''brg180_benchmark_results.csv'']"

definition loaded_world :: "(string \<Rightarrow> string option) \<Rightarrow> world" where
  "loaded_world fs = \<lparr>files = fs, backend = Some ''Agg'', figures = [], calls = startup_calls\<rparr>"

text \<open>The figures handed to \<^verbatim>\<open>savefig\<close> so far, each with its path, oldest first.\<close>

fun saved :: "call \<Rightarrow> (string \<times> Figure) list" where
  "saved (Call_savefig p fg) = [(p, fg)]"
| "saved c = []"

definition saved_figures :: "world \<Rightarrow> (string \<times> Figure) list" where
  "saved_figures w = concat (map saved (calls w))"

text \<open>A call into pyplot, as opposed to the backend choice and the two loads.\<close>

fun is_pyplot :: "call \<Rightarrow> bool" where
  "is_pyplot (Call_use b) = False"
| "is_pyplot (Call_read_csv p) = False"
| "is_pyplot c = True"

subsection \<open>Sample inputs\<close>

text \<open>
  Small concrete inputs on which the theorems below are instantiated: the two-run table of
  the specification's scenario, a table without the two time columns, a header without
  rows, and a parser and an encoder that are defined on exactly these.
\<close>

definition row_of :: "cell list \<Rightarrow> string \<Rightarrow> cell" where
  "row_of vs c = (case map_of (zip required vs) c of Some v \<Rightarrow> v | None \<Rightarrow> NaN)"

definition header_line :: string where
  "header_line =
     ''Run,2-opt Distance,Swap Distance,2-opt Time ('' @ micro # ''s),Swap Time ('' @ micro # ''s)''"

definition sample_csv :: string where
  "sample_csv = header_line @ CHR 0x0A # ''1,100,110,50,40'' @ CHR 0x0A # ''2,95,105,55,42'' @ [CHR 0x0A]"

definition sample_table :: DataFrame where
  "sample_table =
     \<lparr>columns = required,
      rows = [row_of [Num 1, Num 100, Num 110, Num 50, Num 40],
              row_of [Num 2, Num 95, Num 105, Num 55, Num 42]]\<rparr>"

definition short_csv :: string where
  "short_csv = ''Run,2-opt Distance,Swap Distance'' @ CHR 0x0A # ''1,100,110'' @ [CHR 0x0A]"

definition short_table :: DataFrame where
  "short_table =
     \<lparr>columns = [''Run'', ''2-opt Distance'', ''Swap Distance''],
      rows = [row_of [Num 1, Num 100, Num 110]]\<rparr>"

definition header_csv :: string where
  "header_csv = header_line @ [CHR 0x0A]"

definition header_table :: DataFrame where
  "header_table = \<lparr>columns = required, rows = []\<rparr>"

definition sample_parse :: "string \<Rightarrow> DataFrame option" where
  "sample_parse txt =
     (if txt = sample_csv then Some sample_table
      else if txt = short_csv then Some short_table
      else if txt = header_csv then Some header_table
      else None)"

definition sample_encode :: "Figure \<Rightarrow> string" where
  "sample_encode fg = ''PNG '' @ concat (map title_of (axs fg))"

definition sample_lib :: lib where
  "sample_lib = \<lparr>parse_csv = sample_parse, encode_png = sample_encode\<rparr>"

text \<open>Working directories: both inputs good; brg180 without the time columns; bays29
  without them; both inputs header only; bays29 an empty file and brg180 absent; bays29 good
  and brg180 absent.\<close>

definition dir_good :: "string \<Rightarrow> string option" where
  "dir_good = [''bays29_benchmark_results.csv'' \<mapsto> sample_csv,
               ''brg180_benchmark_results.csv'' \<mapsto> sample_csv]"

definition dir_short_brg180 :: "string \<Rightarrow> string option" where
  "dir_short_brg180 = [''bays29_benchmark_results.csv'' \<mapsto> sample_csv,
                       ''brg180_benchmark_results.csv'' \<mapsto> short_csv]"

definition dir_short_bays29 :: "string \<Rightarrow> string option" where
  "dir_short_bays29 = [''bays29_benchmark_results.csv'' \<mapsto> short_csv,
                       ''brg180_benchmark_results.csv'' \<mapsto> sample_csv]"

definition dir_headers :: "string \<Rightarrow> string option" where
  "dir_headers = [''bays29_benchmark_results.csv'' \<mapsto> header_csv,
                  ''brg180_benchmark_results.csv'' \<mapsto> header_csv]"

definition dir_empty_bays29 :: "string \<Rightarrow> string option" where
  "dir_empty_bays29 = [''bays29_benchmark_results.csv'' \<mapsto> []]"

definition dir_no_brg180 :: "string \<Rightarrow> string option" where
  "dir_no_brg180 = [''bays29_benchmark_results.csv'' \<mapsto> sample_csv]"

section \<open>Lemmas about blocks and runs\<close>

lemmas lib_defs =
  figure_def subplot_def plot_columns_def plot_def getitem_def xlabel_def ylabel_def title_def
  legend_def grid_def tight_layout_def savefig_def close_def logged_def on_axes_def
  on_figure_def gcf_def gca_def select_axes_def new_axes_def new_figure_def

lemmas form_defs = chart_def block_calls_def plot_call_def series_def column_def

lemma bays29_block_eq: "bays29_block L df = render_block L ''bays29'' df"
  unfolding bays29_block_def render_block_def by simp

lemma brg180_block_eq: "brg180_block L df = render_block L ''brg180'' df"
  unfolding brg180_block_def render_block_def by simp

text \<open>A block whose table has the five columns runs to its end.\<close>

lemma render_block_ok:
  assumes "has_required df"
  shows "exec (render_block L name df) w =
           (None, w\<lparr>files := (files w)(name @ ''_benchmark.png'' \<mapsto> encode_png L (chart name df)),
                    calls := calls w @ block_calls name df\<rparr>)"
  using assms unfolding has_required_def required_def render_block_def
  by (simp add: lib_defs form_defs Let_def)


text \<open>
  A block whose table lacks one of them stops at the first read of a missing column, before
  \<^verbatim>\<open>tight_layout\<close>: nothing is written and the figure it opened is still open.
\<close>

lemma render_block_fails:
  assumes "\<not> has_required df"
  shows "fst (exec (render_block L name df) w) = Some (KeyError (first_missing df))
       \<and> files (snd (exec (render_block L name df) w)) = files w
       \<and> backend (snd (exec (render_block L name df) w)) = backend w
       \<and> butlast (figures (snd (exec (render_block L name df) w))) = figures w
       \<and> figures (snd (exec (render_block L name df) w)) \<noteq> []
       \<and> (\<exists>n\<le>11. calls (snd (exec (render_block L name df) w)) =
                     calls w @ take n (block_calls name df))"
proof -
  let ?has = "\<lambda>c. c \<in> set (columns df)"
  consider (a) "\<not> ?has ''Run''"
    | (b) "?has ''Run''" "\<not> ?has ''2-opt Distance''"
    | (c) "?has ''Run''" "?has ''2-opt Distance''" "\<not> ?has ''Swap Distance''"
    | (d) "?has ''Run''" "?has ''2-opt Distance''" "?has ''Swap Distance''"
          "\<not> ?has (''2-opt Time ('' @ micro # ''s)'')"
    | (e) "?has ''Run''" "?has ''2-opt Distance''" "?has ''Swap Distance''"
          "?has (''2-opt Time ('' @ micro # ''s)'')" "\<not> ?has (''Swap Time ('' @ micro # ''s)'')"
    using assms unfolding has_required_def required_def by auto
  then show ?thesis
  proof cases
    case a
    then show ?thesis
      unfolding render_block_def first_missing_def required_def
      by (auto simp add: lib_defs form_defs Let_def intro!: exI[of _ "2::nat"])
  next
    case b
    then show ?thesis
      unfolding render_block_def first_missing_def required_def
      by (auto simp add: lib_defs form_defs Let_def intro!: exI[of _ "2::nat"])
  next
    case c
    then show ?thesis
      unfolding render_block_def first_missing_def required_def
      by (auto simp add: lib_defs form_defs Let_def intro!: exI[of _ "3::nat"])
  next
    case d
    then show ?thesis
      unfolding render_block_def first_missing_def required_def
      by (auto simp add: lib_defs form_defs Let_def intro!: exI[of _ "10::nat"])
  next
    case e
    then show ?thesis
      unfolding render_block_def first_missing_def required_def
      by (auto simp add: lib_defs form_defs Let_def intro!: exI[of _ "11::nat"])
  qed
qed

text \<open>The run, case by case: which input is absent or rejected, which table lacks a column.\<close>

lemma run_no_bays29_file:
  assumes "fs ''bays29_benchmark_results.csv'' = None"
  shows "run L fs = (Some (FileNotFoundError ''bays29_benchmark_results.csv''),
                     \<lparr>files = fs, backend = Some ''Agg'', figures = [], calls = [Call_use ''Agg'']\<rparr>)"
  using assms unfolding run_def script_def fresh_def use_def read_csv_def logged_def
  by (simp add: Let_def)

lemma run_bad_bays29_file:
  assumes "fs ''bays29_benchmark_results.csv'' = Some t1" "parse_csv L t1 = None"
  shows "run L fs = (Some (ParseError ''bays29_benchmark_results.csv''),
                     \<lparr>files = fs, backend = Some ''Agg'', figures = [], calls = [Call_use ''Agg'']\<rparr>)"
  using assms unfolding run_def script_def fresh_def use_def read_csv_def logged_def
  by (simp add: Let_def)

lemma run_no_brg180_file:
  assumes "fs ''bays29_benchmark_results.csv'' = Some t1" "parse_csv L t1 = Some df1"
    and "fs ''brg180_benchmark_results.csv'' = None"
  shows "run L fs = (Some (FileNotFoundError ''brg180_benchmark_results.csv''),
                     \<lparr>files = fs, backend = Some ''Agg'', figures = [],
                      calls = [Call_use ''Agg'', Call_read_csv ''bays29_benchmark_results.csv'']\<rparr>)"
  using assms unfolding run_def script_def fresh_def use_def read_csv_def logged_def
  by (simp add: Let_def)

lemma run_bad_brg180_file:
  assumes "fs ''bays29_benchmark_results.csv'' = Some t1" "parse_csv L t1 = Some df1"
    and "fs ''brg180_benchmark_results.csv'' = Some t2" "parse_csv L t2 = None"
  shows "run L fs = (Some (ParseError ''brg180_benchmark_results.csv''),
                     \<lparr>files = fs, backend = Some ''Agg'', figures = [],
                      calls = [Call_use ''Agg'', Call_read_csv ''bays29_benchmark_results.csv'']\<rparr>)"
  using assms unfolding run_def script_def fresh_def use_def read_csv_def logged_def
  by (simp add: Let_def)

lemma run_loaded:
  assumes "fs ''bays29_benchmark_results.csv'' = Some t1" "parse_csv L t1 = Some df1"
    and "fs ''brg180_benchmark_results.csv'' = Some t2" "parse_csv L t2 = Some df2"
  shows "run L fs =
           (case exec (render_block L ''bays29'' df1) (loaded_world fs) of
              (Some e, w4) \<Rightarrow> (Some e, w4)
            | (None, w4) \<Rightarrow> exec (render_block L ''brg180'' df2) w4)"
  using assms
  unfolding run_def script_def fresh_def use_def read_csv_def logged_def loaded_world_def
    startup_calls_def bays29_block_eq brg180_block_eq
  by (simp add: Let_def)

lemma run_ok:
  assumes "fs ''bays29_benchmark_results.csv'' = Some t1" "parse_csv L t1 = Some df1"
    and "fs ''brg180_benchmark_results.csv'' = Some t2" "parse_csv L t2 = Some df2"
    and "has_required df1" "has_required df2"
  shows "run L fs =
           (None, \<lparr>files = fs(''bays29_benchmark.png'' \<mapsto> encode_png L (chart ''bays29'' df1),
                              ''brg180_benchmark.png'' \<mapsto> encode_png L (chart ''brg180'' df2)),
                   backend = Some ''Agg'', figures = [],
                   calls = startup_calls @ block_calls ''bays29'' df1 @ block_calls ''brg180'' df2\<rparr>)"
  unfolding run_loaded [OF assms(1-4)] render_block_ok [OF assms(5)] render_block_ok [OF assms(6)]
  by (simp add: loaded_world_def)

lemma run_fails_in_bays29:
  assumes "fs ''bays29_benchmark_results.csv'' = Some t1" "parse_csv L t1 = Some df1"
    and "fs ''brg180_benchmark_results.csv'' = Some t2" "parse_csv L t2 = Some df2"
    and "\<not> has_required df1"
  shows "fst (run L fs) = Some (KeyError (first_missing df1))
       \<and> files (snd (run L fs)) = fs
       \<and> length (figures (snd (run L fs))) = 1
       \<and> (\<exists>n\<le>11. calls (snd (run L fs)) = startup_calls @ take n (block_calls ''bays29'' df1))"
proof -
  let ?r = "exec (render_block L ''bays29'' df1) (loaded_world fs)"
  note f = render_block_fails [OF assms(5), of L "''bays29''" "loaded_world fs"]
  from f obtain e where e: "fst ?r = Some e" by blast
  have r: "run L fs = ?r"
    unfolding run_loaded [OF assms(1-4)] using e by (cases ?r) simp
  from f have "butlast (figures (snd ?r)) = []" "figures (snd ?r) \<noteq> []"
    by (simp_all add: loaded_world_def)
  then have "length (figures (snd ?r)) = 1"
    by (cases "figures (snd ?r)" rule: rev_cases) simp_all
  with f show ?thesis
    unfolding r by (simp add: loaded_world_def)
qed

lemma run_fails_in_brg180:
  assumes "fs ''bays29_benchmark_results.csv'' = Some t1" "parse_csv L t1 = Some df1"
    and "fs ''brg180_benchmark_results.csv'' = Some t2" "parse_csv L t2 = Some df2"
    and "has_required df1" "\<not> has_required df2"
  shows "fst (run L fs) = Some (KeyError (first_missing df2))
       \<and> files (snd (run L fs)) = fs(''bays29_benchmark.png'' \<mapsto> encode_png L (chart ''bays29'' df1))
       \<and> length (figures (snd (run L fs))) = 1
       \<and> (\<exists>n\<le>11. calls (snd (run L fs)) =
                     startup_calls @ block_calls ''bays29'' df1 @ take n (block_calls ''brg180'' df2))"
proof -
  let ?w = "(loaded_world fs)\<lparr>files := (files (loaded_world fs))(''bays29'' @ ''_benchmark.png'' \<mapsto> encode_png L (chart ''bays29'' df1)),
                    calls := calls (loaded_world fs) @ block_calls ''bays29'' df1\<rparr>"
  let ?r = "exec (render_block L ''brg180'' df2) ?w"
  note f = render_block_fails [OF assms(6), of L "''brg180''" ?w]
  have r: "run L fs = ?r"
    unfolding run_loaded [OF assms(1-4)] render_block_ok [OF assms(5)] by simp
  from f have "butlast (figures (snd ?r)) = []" "figures (snd ?r) \<noteq> []"
    by (simp_all add: loaded_world_def)
  then have "length (figures (snd ?r)) = 1"
    by (cases "figures (snd ?r)" rule: rev_cases) simp_all
  with f show ?thesis
    unfolding r by (simp add: loaded_world_def)
qed

lemma length_block_calls: "length (block_calls name df) = 20"
  by (simp add: block_calls_def)

lemma length_startup_calls: "length startup_calls = 3"
  by (simp add: startup_calls_def)

lemma saved_startup_calls: "concat (map saved startup_calls) = []"
  by (simp add: startup_calls_def)

lemma saved_block_calls:
  "concat (map saved (block_calls name df)) = [(name @ ''_benchmark.png'', chart name df)]"
  by (simp add: block_calls_def plot_call_def)

lemma saved_block_prefix:
  assumes "n \<le> 11"
  shows "concat (map saved (take n (block_calls name df))) = []"
proof -
  have "\<forall>c \<in> set (take 11 (block_calls name df)). saved c = []"
    by (simp add: block_calls_def plot_call_def)
  moreover have "set (take n (block_calls name df)) \<subseteq> set (take 11 (block_calls name df))"
    using assms by (rule set_take_subset_set_take)
  ultimately show ?thesis
    by auto
qed

lemma run_cases:
  obtains (no_bays29) "fs ''bays29_benchmark_results.csv'' = None"
  | (bad_bays29) t1 where "fs ''bays29_benchmark_results.csv'' = Some t1" "parse_csv L t1 = None"
  | (no_brg180) t1 df1 where "fs ''bays29_benchmark_results.csv'' = Some t1" "parse_csv L t1 = Some df1"
      "fs ''brg180_benchmark_results.csv'' = None"
  | (bad_brg180) t1 df1 t2 where "fs ''bays29_benchmark_results.csv'' = Some t1" "parse_csv L t1 = Some df1"
      "fs ''brg180_benchmark_results.csv'' = Some t2" "parse_csv L t2 = None"
  | (fail_bays29) t1 df1 t2 df2 where "fs ''bays29_benchmark_results.csv'' = Some t1" "parse_csv L t1 = Some df1"
      "fs ''brg180_benchmark_results.csv'' = Some t2" "parse_csv L t2 = Some df2" "\<not> has_required df1"
  | (fail_brg180) t1 df1 t2 df2 where "fs ''bays29_benchmark_results.csv'' = Some t1" "parse_csv L t1 = Some df1"
      "fs ''brg180_benchmark_results.csv'' = Some t2" "parse_csv L t2 = Some df2" "has_required df1"
      "\<not> has_required df2"
  | (ok) t1 df1 t2 df2 where "fs ''bays29_benchmark_results.csv'' = Some t1" "parse_csv L t1 = Some df1"
      "fs ''brg180_benchmark_results.csv'' = Some t2" "parse_csv L t2 = Some df2" "has_required df1"
      "has_required df2"
proof (cases "fs ''bays29_benchmark_results.csv''")
  case None
  then show ?thesis by (rule no_bays29)
next
  case s1: (Some t1)
  show ?thesis
  proof (cases "parse_csv L t1")
    case None
    with s1 show ?thesis by (rule bad_bays29)
  next
    case p1: (Some df1)
    show ?thesis
    proof (cases "fs ''brg180_benchmark_results.csv''")
      case None
      with s1 p1 show ?thesis by (rule no_brg180)
    next
      case s2: (Some t2)
      show ?thesis
      proof (cases "parse_csv L t2")
        case None
        with s1 p1 s2 show ?thesis by (rule bad_brg180)
      next
        case p2: (Some df2)
        show ?thesis
        proof (cases "has_required df1")
          case False
          with s1 p1 s2 p2 show ?thesis by (rule fail_bays29)
        next
          case h1: True
          show ?thesis
          proof (cases "has_required df2")
            case False
            with s1 p1 s2 p2 h1 show ?thesis by (rule fail_brg180)
          next
            case True
            with s1 p1 s2 p2 h1 show ?thesis by (rule ok)
          qed
        qed
      qed
    qed
  qed
qed

text \<open>Facts about the sample inputs.\<close>

lemma sample_texts_differ:
  "sample_csv \<noteq> short_csv" "sample_csv \<noteq> header_csv" "short_csv \<noteq> header_csv"
  "sample_csv \<noteq> []" "short_csv \<noteq> []" "header_csv \<noteq> []"
  by (simp_all add: sample_csv_def short_csv_def header_csv_def header_line_def)

lemma sample_parses:
  "parse_csv sample_lib sample_csv = Some sample_table"
  "parse_csv sample_lib short_csv = Some short_table"
  "parse_csv sample_lib header_csv = Some header_table"
  "parse_csv sample_lib [] = None"
  using sample_texts_differ by (simp_all add: sample_lib_def sample_parse_def)

lemma sample_columns:
  "has_required sample_table" "has_required header_table" "\<not> has_required short_table"
  "first_missing short_table = ''2-opt Time ('' @ micro # ''s)''"
  by (simp_all add: has_required_def first_missing_def required_def sample_table_def
        header_table_def short_table_def)

lemma sample_dirs:
  "dir_good ''bays29_benchmark_results.csv'' = Some sample_csv"
  "dir_good ''brg180_benchmark_results.csv'' = Some sample_csv"
  "dir_short_brg180 ''bays29_benchmark_results.csv'' = Some sample_csv"
  "dir_short_brg180 ''brg180_benchmark_results.csv'' = Some short_csv"
  "dir_short_bays29 ''bays29_benchmark_results.csv'' = Some short_csv"
  "dir_short_bays29 ''brg180_benchmark_results.csv'' = Some sample_csv"
  "dir_headers ''bays29_benchmark_results.csv'' = Some header_csv"
  "dir_headers ''brg180_benchmark_results.csv'' = Some header_csv"
  "dir_empty_bays29 ''bays29_benchmark_results.csv'' = Some []"
  "dir_empty_bays29 ''brg180_benchmark_results.csv'' = None"
  "dir_no_brg180 ''bays29_benchmark_results.csv'' = Some sample_csv"
  "dir_no_brg180 ''brg180_benchmark_results.csv'' = None"
  by (simp_all add: dir_good_def dir_short_brg180_def dir_short_bays29_def dir_headers_def
        dir_empty_bays29_def dir_no_brg180_def)

lemma sample_dirs_no_png:
  "dir_good ''bays29_benchmark.png'' = None"
  "dir_short_brg180 ''bays29_benchmark.png'' = None"
  "dir_short_brg180 ''brg180_benchmark.png'' = None"
  by (simp_all add: dir_good_def dir_short_brg180_def)

lemma saved_after_block:
  assumes "has_required df"
  shows "saved_figures (snd (exec (render_block L name df) w)) =
           saved_figures w @ [(name @ ''_benchmark.png'', chart name df)]"
  unfolding render_block_ok [OF assms] by (simp add: saved_figures_def saved_block_calls)

text \<open>The figures a run saves, and initial segments of the full sequence of calls.\<close>

lemma run_saved_figures:
  "saved_figures (snd (run L fs)) = []
   \<or> (\<exists>df1. saved_figures (snd (run L fs)) = [(''bays29_benchmark.png'', chart ''bays29'' df1)])
   \<or> (\<exists>df1 df2. fst (run L fs) = None \<and> saved_figures (snd (run L fs)) =
         [(''bays29_benchmark.png'', chart ''bays29'' df1),
          (''brg180_benchmark.png'', chart ''brg180'' df2)])"
proof (cases rule: run_cases [where fs = fs and L = L])
  case no_bays29
  then show ?thesis
    using run_no_bays29_file [of fs L] by (simp add: saved_figures_def)
next
  case (bad_bays29 t1)
  then show ?thesis
    using run_bad_bays29_file [of fs t1 L] by (simp add: saved_figures_def)
next
  case (no_brg180 t1 df1)
  then show ?thesis
    using run_no_brg180_file [of fs t1 L df1] by (simp add: saved_figures_def)
next
  case (bad_brg180 t1 df1 t2)
  then show ?thesis
    using run_bad_brg180_file [of fs t1 L df1 t2] by (simp add: saved_figures_def)
next
  case (fail_bays29 t1 df1 t2 df2)
  from run_fails_in_bays29 [OF fail_bays29]
  obtain n where "n \<le> 11"
    "calls (snd (run L fs)) = startup_calls @ take n (block_calls ''bays29'' df1)"
    by blast
  then have "saved_figures (snd (run L fs)) = []"
    by (simp add: saved_figures_def saved_startup_calls saved_block_prefix)
  then show ?thesis by simp
next
  case (fail_brg180 t1 df1 t2 df2)
  from run_fails_in_brg180 [OF fail_brg180]
  obtain n where "n \<le> 11"
    "calls (snd (run L fs)) =
       startup_calls @ block_calls ''bays29'' df1 @ take n (block_calls ''brg180'' df2)"
    by blast
  then have "saved_figures (snd (run L fs)) = [(''bays29_benchmark.png'', chart ''bays29'' df1)]"
    by (simp add: saved_figures_def saved_startup_calls saved_block_prefix saved_block_calls)
  then show ?thesis by blast
next
  case (ok t1 df1 t2 df2)
  have "saved_figures (snd (run L fs)) =
         [(''bays29_benchmark.png'', chart ''bays29'' df1),
          (''brg180_benchmark.png'', chart ''brg180'' df2)]"
    unfolding run_ok [OF ok]
    by (simp add: saved_figures_def saved_startup_calls saved_block_calls)
  moreover have "fst (run L fs) = None"
    unfolding run_ok [OF ok] by simp
  ultimately show ?thesis by blast
qed

lemma take_all_calls:
  "take 43 (startup_calls @ block_calls ''bays29'' df1 @ block_calls ''brg180'' df2) =
     startup_calls @ block_calls ''bays29'' df1 @ block_calls ''brg180'' df2"
  by (simp add: length_startup_calls length_block_calls)

lemma take_into_brg180:
  assumes "n \<le> 11"
  shows "take (23 + n) (startup_calls @ block_calls ''bays29'' df1 @ block_calls ''brg180'' df2) =
     startup_calls @ block_calls ''bays29'' df1 @ take n (block_calls ''brg180'' df2)"
  using assms by (simp add: length_startup_calls length_block_calls)

lemma take_into_bays29:
  assumes "n \<le> 11"
  shows "take (3 + n) (startup_calls @ block_calls ''bays29'' df1 @ block_calls ''brg180'' df2) =
     startup_calls @ take n (block_calls ''bays29'' df1)"
  using assms by (simp add: length_startup_calls length_block_calls)

lemma pyplot_after_startup:
  assumes "i < length (startup_calls @ xs)" "is_pyplot ((startup_calls @ xs) ! i)"
  shows "3 \<le> i"
proof (rule ccontr)
  assume "\<not> 3 \<le> i"
  then have "i = 0 \<or> i = 1 \<or> i = 2"
    by arith
  with assms(2) show False
    by (auto simp add: startup_calls_def)
qed

section \<open>The claims\<close>

subsection \<open>C1: a table without a required column\<close>




subsection \<open>C2: an input file that does not exist\<close>

text \<open>
  C2, as stated, asks for \<^verbatim>\<open>FileNotFoundError\<close> whenever one of the two paths is absent. With
  an empty bays29 file and no brg180 file the run ends at line 9 with the parser's error;
  line 10, which would look for the absent file, is not reached.
\<close>

theorem missing_input_counterexample:
  "dir_empty_bays29 ''brg180_benchmark_results.csv'' = None
   \<and> fst (run sample_lib dir_empty_bays29) = Some (ParseError ''bays29_benchmark_results.csv'')
   \<and> fst (run sample_lib dir_empty_bays29) \<noteq> Some (FileNotFoundError ''brg180_benchmark_results.csv'')
   \<and> fst (run sample_lib dir_empty_bays29) \<noteq> Some (FileNotFoundError ''bays29_benchmark_results.csv'')"
  using run_bad_bays29_file [of dir_empty_bays29 "[]" sample_lib]
  by (simp add: sample_dirs sample_parses)

text \<open>
  C2, amended. When at least one of the two input paths does not exist, the run fails, no
  file is changed and \<^verbatim>\<open>savefig\<close> is never called. The error is \<^verbatim>\<open>FileNotFoundError\<close> for the
  bays29 path when that is absent, \<^verbatim>\<open>FileNotFoundError\<close> for the brg180 path when the bays29
  file loads, and the parser's error when the bays29 file exists and is rejected.
\<close>

theorem missing_input_fails:
  assumes "fs ''bays29_benchmark_results.csv'' = None \<or> fs ''brg180_benchmark_results.csv'' = None"
  shows "fst (run L fs) \<noteq> None
       \<and> files (snd (run L fs)) = fs
       \<and> saved_figures (snd (run L fs)) = []
       \<and> (fs ''bays29_benchmark_results.csv'' = None \<longrightarrow>
            fst (run L fs) = Some (FileNotFoundError ''bays29_benchmark_results.csv''))
       \<and> (\<forall>t1 df1. fs ''bays29_benchmark_results.csv'' = Some t1 \<and> parse_csv L t1 = Some df1 \<longrightarrow>
            fst (run L fs) = Some (FileNotFoundError ''brg180_benchmark_results.csv''))
       \<and> (\<forall>t1. fs ''bays29_benchmark_results.csv'' = Some t1 \<and> parse_csv L t1 = None \<longrightarrow>
            fst (run L fs) = Some (ParseError ''bays29_benchmark_results.csv''))"
proof (cases rule: run_cases [where fs = fs and L = L])
  case no_bays29
  then show ?thesis
    using run_no_bays29_file [of fs L] by (simp add: saved_figures_def)
next
  case (bad_bays29 t1)
  then show ?thesis
    using run_bad_bays29_file [of fs t1 L] by (simp add: saved_figures_def)
next
  case (no_brg180 t1 df1)
  then show ?thesis
    using run_no_brg180_file [of fs t1 L df1] by (simp add: saved_figures_def)
next
  case (bad_brg180 t1 df1 t2)
  with assms show ?thesis by simp
next
  case (fail_bays29 t1 df1 t2 df2)
  with assms show ?thesis by simp
next
  case (fail_brg180 t1 df1 t2 df2)
  with assms show ?thesis by simp
next
  case (ok t1 df1 t2 df2)
  with assms show ?thesis by simp
qed

theorem missing_input_fails_witness:
  "dir_no_brg180 ''brg180_benchmark_results.csv'' = None
   \<and> dir_no_brg180 ''bays29_benchmark_results.csv'' = Some sample_csv
   \<and> parse_csv sample_lib sample_csv = Some sample_table
   \<and> fst (run sample_lib dir_no_brg180) = Some (FileNotFoundError ''brg180_benchmark_results.csv'')
   \<and> files (snd (run sample_lib dir_no_brg180)) = dir_no_brg180
   \<and> saved_figures (snd (run sample_lib dir_no_brg180)) = []
   \<and> fst (run sample_lib Map.empty) = Some (FileNotFoundError ''bays29_benchmark_results.csv'')
   \<and> files (snd (run sample_lib Map.empty)) = Map.empty"
  using missing_input_fails [of dir_no_brg180 sample_lib] missing_input_fails [of Map.empty sample_lib]
  by (simp add: sample_dirs sample_parses)

subsection \<open>C3: one point per row, in row order\<close>



subsection \<open>C4: bays29 first, then brg180\<close>

text \<open>
  C4. Let both files load. The calls of every run are an initial segment of one fixed
  sequence: the backend choice and the two loads, then the twenty calls of the bays29 block,
  then the twenty calls of the brg180 block. When both tables have the five columns the run
  makes all of them, without error, and saves the bays29 figure first and the brg180 figure
  second. When only the brg180 table lacks a column, the bays29 block has run to its end
  and the brg180 block has begun when the run fails. When the bays29 table lacks a column,
  the bays29 block raises and the run ends there, with that error and in that state: at
  most eleven calls of the bays29 block have been made and none of the brg180 block, and no
  figure is saved. In general, whenever the bays29 block raises, the run ends with that
  error and state, before any call of the brg180 block and with no file written.
\<close>

theorem renders_run_in_order:
  assumes "fs ''bays29_benchmark_results.csv'' = Some t1" "parse_csv L t1 = Some df1"
    and "fs ''brg180_benchmark_results.csv'' = Some t2" "parse_csv L t2 = Some df2"
  shows "(\<exists>n. calls (snd (run L fs)) =
              take n (startup_calls @ block_calls ''bays29'' df1 @ block_calls ''brg180'' df2))
       \<and> (has_required df1 \<and> has_required df2 \<longrightarrow>
            fst (run L fs) = None
          \<and> calls (snd (run L fs)) =
              startup_calls @ block_calls ''bays29'' df1 @ block_calls ''brg180'' df2
          \<and> saved_figures (snd (run L fs)) =
              [(''bays29_benchmark.png'', chart ''bays29'' df1),
               (''brg180_benchmark.png'', chart ''brg180'' df2)])
       \<and> (has_required df1 \<and> \<not> has_required df2 \<longrightarrow>
            fst (run L fs) = Some (KeyError (first_missing df2))
          \<and> (\<exists>n\<le>11. calls (snd (run L fs)) =
                startup_calls @ block_calls ''bays29'' df1 @ take n (block_calls ''brg180'' df2))
          \<and> saved_figures (snd (run L fs)) = [(''bays29_benchmark.png'', chart ''bays29'' df1)])
       \<and> (\<not> has_required df1 \<longrightarrow>
            exec (bays29_block L df1) (loaded_world fs) =
              (Some (KeyError (first_missing df1)), snd (run L fs))
          \<and> fst (run L fs) = Some (KeyError (first_missing df1))
          \<and> (\<exists>n\<le>11. calls (snd (run L fs)) =
                startup_calls @ take n (block_calls ''bays29'' df1))
          \<and> saved_figures (snd (run L fs)) = [])
       \<and> (fst (run L fs) = None \<longrightarrow>
            calls (snd (run L fs)) =
              startup_calls @ block_calls ''bays29'' df1 @ block_calls ''brg180'' df2)
       \<and> (\<forall>e w4. exec (bays29_block L df1) (loaded_world fs) = (Some e, w4) \<longrightarrow>
            run L fs = (Some e, w4)
          \<and> length (calls w4) < length (startup_calls @ block_calls ''bays29'' df1)
          \<and> files w4 = fs
          \<and> saved_figures w4 = [])"
proof -
  let ?all = "startup_calls @ block_calls ''bays29'' df1 @ block_calls ''brg180'' df2"
  have prefix: "\<exists>n. calls (snd (run L fs)) = take n ?all"
  proof (cases "has_required df1")
    case False
    from run_fails_in_bays29 [OF assms False]
    obtain n where n: "n \<le> 11"
      "calls (snd (run L fs)) = startup_calls @ take n (block_calls ''bays29'' df1)"
      by blast
    from n(2) have c: "calls (snd (run L fs)) = take (3 + n) ?all"
      unfolding take_into_bays29 [OF n(1)] .
    show ?thesis by (rule exI [of _ "3 + n"]) (rule c)
  next
    case h1: True
    show ?thesis
    proof (cases "has_required df2")
      case False
      from run_fails_in_brg180 [OF assms h1 False]
      obtain n where n: "n \<le> 11"
        "calls (snd (run L fs)) =
           startup_calls @ block_calls ''bays29'' df1 @ take n (block_calls ''brg180'' df2)"
        by blast
      from n(2) have c: "calls (snd (run L fs)) = take (23 + n) ?all"
        unfolding take_into_brg180 [OF n(1)] .
      show ?thesis by (rule exI [of _ "23 + n"]) (rule c)
    next
      case True
      have "calls (snd (run L fs)) = ?all"
        unfolding run_ok [OF assms h1 True] by simp
      then have c: "calls (snd (run L fs)) = take 43 ?all"
        unfolding take_all_calls .
      show ?thesis by (rule exI [of _ 43]) (rule c)
    qed
  qed
  have whole: "calls (snd (run L fs)) = ?all" if ok: "fst (run L fs) = None"
  proof -
    have h1: "has_required df1"
    proof (rule ccontr)
      assume "\<not> has_required df1"
      from run_fails_in_bays29 [OF assms this] ok show False by simp
    qed
    have h2: "has_required df2"
    proof (rule ccontr)
      assume "\<not> has_required df2"
      from run_fails_in_brg180 [OF assms h1 this] ok show False by simp
    qed
    show ?thesis
      unfolding run_ok [OF assms h1 h2] by simp
  qed
  have stop: "run L fs = (Some e, w4)
          \<and> length (calls w4) < length (startup_calls @ block_calls ''bays29'' df1)
          \<and> files w4 = fs
          \<and> saved_figures w4 = []"
    if f: "exec (bays29_block L df1) (loaded_world fs) = (Some e, w4)" for e w4
  proof (intro conjI)
    have r: "exec (render_block L ''bays29'' df1) (loaded_world fs) = (Some e, w4)"
      using f by (simp add: bays29_block_eq)
    have m: "\<not> has_required df1"
    proof
      assume "has_required df1"
      from render_block_ok [OF this, of L "''bays29''" "loaded_world fs"] r
      show False by simp
    qed
    show "run L fs = (Some e, w4)"
      unfolding run_loaded [OF assms] r by simp
    note fl = render_block_fails [OF m, of L "''bays29''" "loaded_world fs",
        unfolded r snd_conv fst_conv]
    from fl show "files w4 = fs"
      by (simp add: loaded_world_def)
    from fl obtain n where n: "n \<le> 11"
      "calls w4 = calls (loaded_world fs) @ take n (block_calls ''bays29'' df1)"
      by blast
    from n show "length (calls w4) < length (startup_calls @ block_calls ''bays29'' df1)"
      by (simp add: loaded_world_def length_startup_calls length_block_calls)
    from n show "saved_figures w4 = []"
      by (simp add: loaded_world_def saved_figures_def saved_startup_calls saved_block_prefix)
  qed
  have both: "fst (run L fs) = None \<and> calls (snd (run L fs)) = ?all
      \<and> saved_figures (snd (run L fs)) =
              [(''bays29_benchmark.png'', chart ''bays29'' df1),
               (''brg180_benchmark.png'', chart ''brg180'' df2)]"
    if h: "has_required df1 \<and> has_required df2"
  proof -
    from h have h1: "has_required df1" and h2: "has_required df2"
      by simp_all
    show ?thesis
      unfolding run_ok [OF assms h1 h2]
      by (simp add: saved_figures_def saved_startup_calls saved_block_calls)
  qed
  have second: "fst (run L fs) = Some (KeyError (first_missing df2))
      \<and> (\<exists>n\<le>11. calls (snd (run L fs)) =
            startup_calls @ block_calls ''bays29'' df1 @ take n (block_calls ''brg180'' df2))
      \<and> saved_figures (snd (run L fs)) = [(''bays29_benchmark.png'', chart ''bays29'' df1)]"
    if h: "has_required df1 \<and> \<not> has_required df2"
  proof -
    from h have h1: "has_required df1" and m2: "\<not> has_required df2"
      by simp_all
    note f = run_fails_in_brg180 [OF assms h1 m2]
    from f obtain n where n: "n \<le> 11"
      "calls (snd (run L fs)) =
         startup_calls @ block_calls ''bays29'' df1 @ take n (block_calls ''brg180'' df2)"
      by blast
    from n have "saved_figures (snd (run L fs)) = [(''bays29_benchmark.png'', chart ''bays29'' df1)]"
      by (simp add: saved_figures_def saved_startup_calls saved_block_prefix saved_block_calls)
    with f show ?thesis
      by simp
  qed
  have first: "exec (bays29_block L df1) (loaded_world fs) =
              (Some (KeyError (first_missing df1)), snd (run L fs))
      \<and> fst (run L fs) = Some (KeyError (first_missing df1))
      \<and> (\<exists>n\<le>11. calls (snd (run L fs)) = startup_calls @ take n (block_calls ''bays29'' df1))
      \<and> saved_figures (snd (run L fs)) = []"
    if m1: "\<not> has_required df1"
  proof -
    let ?r = "exec (bays29_block L df1) (loaded_world fs)"
    from render_block_fails [OF m1, of L "''bays29''" "loaded_world fs"]
    have e: "fst ?r = Some (KeyError (first_missing df1))"
      by (simp add: bays29_block_eq)
    then have p: "?r = (Some (KeyError (first_missing df1)), snd ?r)"
      by (cases ?r) simp
    from stop [OF p] have r: "run L fs = (Some (KeyError (first_missing df1)), snd ?r)"
      and s: "saved_figures (snd ?r) = []"
      by simp_all
    from r have sn: "snd ?r = snd (run L fs)"
      by simp
    have a: "?r = (Some (KeyError (first_missing df1)), snd (run L fs))"
      using p unfolding sn .
    have b: "saved_figures (snd (run L fs)) = []"
      using s unfolding sn .
    note f = run_fails_in_bays29 [OF assms m1]
    from f have c: "fst (run L fs) = Some (KeyError (first_missing df1))"
      and d: "\<exists>n\<le>11. calls (snd (run L fs)) = startup_calls @ take n (block_calls ''bays29'' df1)"
      by simp_all
    from a c d b show ?thesis
      by (intro conjI)
  qed
  show ?thesis
  proof (intro conjI allI impI)
    show "\<exists>n. calls (snd (run L fs)) = take n ?all"
      by (rule prefix)
  next
    assume h: "has_required df1 \<and> has_required df2"
    from both [OF h] show "fst (run L fs) = None" "calls (snd (run L fs)) = ?all"
      "saved_figures (snd (run L fs)) =
              [(''bays29_benchmark.png'', chart ''bays29'' df1),
               (''brg180_benchmark.png'', chart ''brg180'' df2)]"
      by simp_all
  next
    assume h: "has_required df1 \<and> \<not> has_required df2"
    from second [OF h] show "fst (run L fs) = Some (KeyError (first_missing df2))"
      "\<exists>n\<le>11. calls (snd (run L fs)) =
                startup_calls @ block_calls ''bays29'' df1 @ take n (block_calls ''brg180'' df2)"
      "saved_figures (snd (run L fs)) = [(''bays29_benchmark.png'', chart ''bays29'' df1)]"
      by simp_all
  next
    assume m: "\<not> has_required df1"
    from first [OF m] show "exec (bays29_block L df1) (loaded_world fs) =
              (Some (KeyError (first_missing df1)), snd (run L fs))"
      "fst (run L fs) = Some (KeyError (first_missing df1))"
      "\<exists>n\<le>11. calls (snd (run L fs)) = startup_calls @ take n (block_calls ''bays29'' df1)"
      "saved_figures (snd (run L fs)) = []"
      by simp_all
  next
    assume "fst (run L fs) = None"
    then show "calls (snd (run L fs)) = ?all"
      by (rule whole)
  next
    fix e w4
    assume f: "exec (bays29_block L df1) (loaded_world fs) = (Some e, w4)"
    from stop [OF f] show "run L fs = (Some e, w4)"
      "length (calls w4) < length (startup_calls @ block_calls ''bays29'' df1)"
      "files w4 = fs" "saved_figures w4 = []"
      by simp_all
  qed
qed

theorem renders_run_in_order_witness:
  "dir_good ''bays29_benchmark_results.csv'' = Some sample_csv
   \<and> dir_good ''brg180_benchmark_results.csv'' = Some sample_csv
   \<and> parse_csv sample_lib sample_csv = Some sample_table
   \<and> has_required sample_table
   \<and> fst (run sample_lib dir_good) = None
   \<and> calls (snd (run sample_lib dir_good)) =
       startup_calls @ block_calls ''bays29'' sample_table @ block_calls ''brg180'' sample_table
   \<and> length (calls (snd (run sample_lib dir_good))) = 43
   \<and> calls (snd (run sample_lib dir_good)) ! 9 = Call_title ''Distances for bays29 Instance''
   \<and> calls (snd (run sample_lib dir_good)) ! 21 =
       Call_savefig ''bays29_benchmark.png'' (chart ''bays29'' sample_table)
   \<and> calls (snd (run sample_lib dir_good)) ! 29 = Call_title ''Distances for brg180 Instance''
   \<and> calls (snd (run sample_lib dir_good)) ! 41 =
       Call_savefig ''brg180_benchmark.png'' (chart ''brg180'' sample_table)
   \<and> saved_figures (snd (run sample_lib dir_good)) =
       [(''bays29_benchmark.png'', chart ''bays29'' sample_table),
        (''brg180_benchmark.png'', chart ''brg180'' sample_table)]
   \<and> dir_short_brg180 ''brg180_benchmark_results.csv'' = Some short_csv
   \<and> parse_csv sample_lib short_csv = Some short_table
   \<and> \<not> has_required short_table
   \<and> fst (run sample_lib dir_short_brg180) = Some (KeyError (''2-opt Time ('' @ micro # ''s)''))
   \<and> saved_figures (snd (run sample_lib dir_short_brg180)) =
       [(''bays29_benchmark.png'', chart ''bays29'' sample_table)]
   \<and> dir_short_bays29 ''bays29_benchmark_results.csv'' = Some short_csv
   \<and> fst (run sample_lib dir_short_bays29) = Some (KeyError (''2-opt Time ('' @ micro # ''s)''))
   \<and> run sample_lib dir_short_bays29 =
       (Some (KeyError (''2-opt Time ('' @ micro # ''s)'')),
        snd (exec (bays29_block sample_lib short_table) (loaded_world dir_short_bays29)))
   \<and> length (calls (snd (run sample_lib dir_short_bays29))) < 23
   \<and> files (snd (run sample_lib dir_short_bays29)) = dir_short_bays29
   \<and> saved_figures (snd (run sample_lib dir_short_bays29)) = []"
proof -
  let ?k = "KeyError (''2-opt Time ('' @ micro # ''s)'')"
  let ?r = "exec (bays29_block sample_lib short_table) (loaded_world dir_short_bays29)"
  let ?w = "snd (run sample_lib dir_short_bays29)"
  note good = renders_run_in_order [of dir_good sample_csv sample_lib sample_table sample_csv sample_table,
      OF sample_dirs(1) sample_parses(1) sample_dirs(2) sample_parses(1)]
  note sb = renders_run_in_order [of dir_short_brg180 sample_csv sample_lib sample_table short_csv short_table,
      OF sample_dirs(3) sample_parses(1) sample_dirs(4) sample_parses(2)]
  note sa = renders_run_in_order [of dir_short_bays29 short_csv sample_lib short_table sample_csv sample_table,
      OF sample_dirs(5) sample_parses(2) sample_dirs(6) sample_parses(1)]
  note g = good [THEN conjunct2, THEN conjunct1, THEN mp, OF conjI [OF sample_columns(1) sample_columns(1)]]
  note b = sb [THEN conjunct2, THEN conjunct2, THEN conjunct1, THEN mp,
      OF conjI [OF sample_columns(1) sample_columns(3)], unfolded sample_columns(4)]
  note a = sa [THEN conjunct2, THEN conjunct2, THEN conjunct2, THEN conjunct1, THEN mp,
      OF sample_columns(3), unfolded sample_columns(4)]
  note a1 = a [THEN conjunct1]
  note a2 = a [THEN conjunct2, THEN conjunct1]
  note c = sa [THEN conjunct2, THEN conjunct2, THEN conjunct2, THEN conjunct2, THEN conjunct2,
      THEN spec, THEN spec, THEN mp, OF a1]
  note c1 = c [THEN conjunct2, THEN conjunct1]
  note c2 = c [THEN conjunct2, THEN conjunct2, THEN conjunct1]
  note c3 = c [THEN conjunct2, THEN conjunct2, THEN conjunct2]
  from c1 have c1': "length (calls ?w) < 23"
    by (simp add: length_startup_calls length_block_calls)
  from a1 have sn: "snd ?r = ?w"
    by simp
  have r: "run sample_lib dir_short_bays29 = (Some ?k, snd ?r)"
    unfolding sn using a2 by (simp add: prod_eq_iff)
  have idx: "(startup_calls @ block_calls ''bays29'' sample_table @ block_calls ''brg180'' sample_table) ! 9
       = Call_title ''Distances for bays29 Instance''"
    "(startup_calls @ block_calls ''bays29'' sample_table @ block_calls ''brg180'' sample_table) ! 21
       = Call_savefig ''bays29_benchmark.png'' (chart ''bays29'' sample_table)"
    "(startup_calls @ block_calls ''bays29'' sample_table @ block_calls ''brg180'' sample_table) ! 29
       = Call_title ''Distances for brg180 Instance''"
    "(startup_calls @ block_calls ''bays29'' sample_table @ block_calls ''brg180'' sample_table) ! 41
       = Call_savefig ''brg180_benchmark.png'' (chart ''brg180'' sample_table)"
    by (simp_all add: startup_calls_def block_calls_def)
  have l: "length (startup_calls @ block_calls ''bays29'' sample_table @ block_calls ''brg180'' sample_table) = 43"
    by (simp add: length_startup_calls length_block_calls)
  note g1 = g [THEN conjunct1]
  note g2 = g [THEN conjunct2, THEN conjunct1]
  note g3 = g [THEN conjunct2, THEN conjunct2]
  note b1 = b [THEN conjunct1]
  note b3 = b [THEN conjunct2, THEN conjunct2]
  show ?thesis
    unfolding g2 idx l
    by (intro conjI sample_dirs(1,2,4,5) sample_parses(1,2) sample_columns(1,3)
        g1 g3 b1 b3 a2 r c1' c2 c3 refl)
qed

subsection \<open>C5: open figures\<close>

text \<open>
  C5, as stated, asks that the figure is released also when an error is surfaced. With a
  bays29 table that lacks the time columns the run ends in \<^verbatim>\<open>KeyError\<close> while the figure
  opened at line 13 is still open: \<^verbatim>\<open>plt.close()\<close> at line 37 is only reached after
  \<^verbatim>\<open>savefig\<close>, and nothing in the script catches the error.
\<close>

theorem figure_open_on_error_counterexample:
  "fst (run sample_lib dir_short_bays29) = Some (KeyError (''2-opt Time ('' @ micro # ''s)''))
   \<and> length (figures (snd (run sample_lib dir_short_bays29))) = 1
   \<and> figures (snd (run sample_lib dir_short_bays29)) \<noteq> []"
  using run_fails_in_bays29 [of dir_short_bays29 short_csv sample_lib short_table sample_csv sample_table]
  by (auto simp add: sample_dirs sample_parses sample_columns)

text \<open>
  C5, amended. A block that runs to its end leaves open exactly the figures that were open
  when it began, so the brg180 block starts with none and a run without error ends with
  none. A block that raises leaves its own figure open on top of them: a run that ends in
  \<^verbatim>\<open>KeyError\<close> ends with exactly one open figure, and no later block begins.
\<close>

theorem figure_closed_when_render_completes:
  "(has_required df \<longrightarrow>
      figures (snd (exec (bays29_block L df) w)) = figures w
    \<and> figures (snd (exec (brg180_block L df) w)) = figures w)
   \<and> (\<not> has_required df \<longrightarrow>
        fst (exec (bays29_block L df) w) \<noteq> None
      \<and> butlast (figures (snd (exec (bays29_block L df) w))) = figures w
      \<and> figures (snd (exec (bays29_block L df) w)) \<noteq> []
      \<and> fst (exec (brg180_block L df) w) \<noteq> None
      \<and> butlast (figures (snd (exec (brg180_block L df) w))) = figures w
      \<and> figures (snd (exec (brg180_block L df) w)) \<noteq> [])
   \<and> (fst (run L fs) = None \<longrightarrow> figures (snd (run L fs)) = [])
   \<and> (\<forall>c. fst (run L fs) = Some (KeyError c) \<longrightarrow> length (figures (snd (run L fs))) = 1)"
proof (intro conjI allI impI)
  assume h: "has_required df"
  show "figures (snd (exec (bays29_block L df) w)) = figures w"
    unfolding bays29_block_eq render_block_ok [OF h] by simp
  show "figures (snd (exec (brg180_block L df) w)) = figures w"
    unfolding brg180_block_eq render_block_ok [OF h] by simp
next
  assume m: "\<not> has_required df"
  note a = render_block_fails [OF m, of L "''bays29''" w, folded bays29_block_eq]
  note b = render_block_fails [OF m, of L "''brg180''" w, folded brg180_block_eq]
  from a show "fst (exec (bays29_block L df) w) \<noteq> None"
    "butlast (figures (snd (exec (bays29_block L df) w))) = figures w"
    "figures (snd (exec (bays29_block L df) w)) \<noteq> []"
    by simp_all
  from b show "fst (exec (brg180_block L df) w) \<noteq> None"
    "butlast (figures (snd (exec (brg180_block L df) w))) = figures w"
    "figures (snd (exec (brg180_block L df) w)) \<noteq> []"
    by simp_all
next
  assume ok: "fst (run L fs) = None"
  show "figures (snd (run L fs)) = []"
  proof (cases rule: run_cases [where fs = fs and L = L])
    case no_bays29
    with ok show ?thesis using run_no_bays29_file [of fs L] by simp
  next
    case (bad_bays29 t1)
    with ok show ?thesis using run_bad_bays29_file [of fs t1 L] by simp
  next
    case (no_brg180 t1 df1)
    with ok show ?thesis using run_no_brg180_file [of fs t1 L df1] by simp
  next
    case (bad_brg180 t1 df1 t2)
    with ok show ?thesis using run_bad_brg180_file [of fs t1 L df1 t2] by simp
  next
    case (fail_bays29 t1 df1 t2 df2)
    from run_fails_in_bays29 [OF fail_bays29] ok show ?thesis by simp
  next
    case (fail_brg180 t1 df1 t2 df2)
    from run_fails_in_brg180 [OF fail_brg180] ok show ?thesis by simp
  next
    case (ok t1 df1 t2 df2)
    show ?thesis unfolding run_ok [OF ok] by simp
  qed
next
  fix c
  assume ke: "fst (run L fs) = Some (KeyError c)"
  show "length (figures (snd (run L fs))) = 1"
  proof (cases rule: run_cases [where fs = fs and L = L])
    case no_bays29
    with ke show ?thesis using run_no_bays29_file [of fs L] by simp
  next
    case (bad_bays29 t1)
    with ke show ?thesis using run_bad_bays29_file [of fs t1 L] by simp
  next
    case (no_brg180 t1 df1)
    with ke show ?thesis using run_no_brg180_file [of fs t1 L df1] by simp
  next
    case (bad_brg180 t1 df1 t2)
    with ke show ?thesis using run_bad_brg180_file [of fs t1 L df1 t2] by simp
  next
    case (fail_bays29 t1 df1 t2 df2)
    from run_fails_in_bays29 [OF fail_bays29] show ?thesis by simp
  next
    case (fail_brg180 t1 df1 t2 df2)
    from run_fails_in_brg180 [OF fail_brg180] show ?thesis by simp
  next
    case (ok t1 df1 t2 df2)
    with ke show ?thesis using run_ok [OF ok] by simp
  qed
qed

theorem figure_closed_when_render_completes_witness:
  "has_required sample_table
   \<and> figures (snd (exec (bays29_block sample_lib sample_table) (loaded_world dir_good))) = []
   \<and> \<not> has_required short_table
   \<and> fst (exec (brg180_block sample_lib short_table) (loaded_world dir_good)) \<noteq> None
   \<and> figures (snd (exec (brg180_block sample_lib short_table) (loaded_world dir_good))) \<noteq> []
   \<and> fst (run sample_lib dir_good) = None
   \<and> figures (snd (run sample_lib dir_good)) = []
   \<and> fst (run sample_lib dir_short_brg180) = Some (KeyError (''2-opt Time ('' @ micro # ''s)''))
   \<and> length (figures (snd (run sample_lib dir_short_brg180))) = 1"
proof -
  have ok: "fst (run sample_lib dir_good) = None"
    using run_ok [of dir_good sample_csv sample_lib sample_table sample_csv sample_table]
    by (simp add: sample_dirs sample_parses sample_columns)
  have ke: "fst (run sample_lib dir_short_brg180) = Some (KeyError (''2-opt Time ('' @ micro # ''s)''))"
    using run_fails_in_brg180 [of dir_short_brg180 sample_csv sample_lib sample_table short_csv short_table]
    by (simp add: sample_dirs sample_parses sample_columns)
  have fg: "figures (loaded_world dir_good) = []"
    by (simp add: loaded_world_def)
  show ?thesis
    using figure_closed_when_render_completes [of sample_table sample_lib "loaded_world dir_good" dir_good]
      figure_closed_when_render_completes [of short_table sample_lib "loaded_world dir_good" dir_short_brg180]
      ok ke fg sample_columns
    by simp
qed

subsection \<open>C6: a header without rows\<close>

text \<open>
  C6. For a table with the five required columns and no rows, either block runs to its end
  without an error, writes its file, and the figure it saves has two plot areas whose four
  lines are all empty.
\<close>

theorem empty_table_renders:
  assumes "has_required df" "rows df = []"
  shows "fst (exec (bays29_block L df) w) = None
       \<and> files (snd (exec (bays29_block L df) w)) ''bays29_benchmark.png'' =
           Some (encode_png L (chart ''bays29'' df))
       \<and> saved_figures (snd (exec (bays29_block L df) w)) =
           saved_figures w @ [(''bays29_benchmark.png'', chart ''bays29'' df)]
       \<and> fst (exec (brg180_block L df) w) = None
       \<and> files (snd (exec (brg180_block L df) w)) ''brg180_benchmark.png'' =
           Some (encode_png L (chart ''brg180'' df))
       \<and> saved_figures (snd (exec (brg180_block L df) w)) =
           saved_figures w @ [(''brg180_benchmark.png'', chart ''brg180'' df)]
       \<and> (\<forall>name. map (\<lambda>a. map (\<lambda>l. (xdata l, ydata l)) (lines a)) (axs (chart name df)) =
            [[([], []), ([], [])], [([], []), ([], [])]])"
proof (intro conjI allI)
  show "fst (exec (bays29_block L df) w) = None"
    unfolding bays29_block_eq render_block_ok [OF assms(1)] by simp
  show "fst (exec (brg180_block L df) w) = None"
    unfolding brg180_block_eq render_block_ok [OF assms(1)] by simp
  show "files (snd (exec (bays29_block L df) w)) ''bays29_benchmark.png'' =
           Some (encode_png L (chart ''bays29'' df))"
    unfolding bays29_block_eq render_block_ok [OF assms(1)] by simp
  show "files (snd (exec (brg180_block L df) w)) ''brg180_benchmark.png'' =
           Some (encode_png L (chart ''brg180'' df))"
    unfolding brg180_block_eq render_block_ok [OF assms(1)] by simp
  show "saved_figures (snd (exec (bays29_block L df) w)) =
          saved_figures w @ [(''bays29_benchmark.png'', chart ''bays29'' df)]"
    unfolding bays29_block_eq saved_after_block [OF assms(1)] by simp
  show "saved_figures (snd (exec (brg180_block L df) w)) =
          saved_figures w @ [(''brg180_benchmark.png'', chart ''brg180'' df)]"
    unfolding brg180_block_eq saved_after_block [OF assms(1)] by simp
next
  fix name
  show "map (\<lambda>a. map (\<lambda>l. (xdata l, ydata l)) (lines a)) (axs (chart name df)) =
            [[([], []), ([], [])], [([], []), ([], [])]]"
    using assms(2) by (simp add: chart_def series_def column_def)
qed

theorem empty_table_renders_witness:
  "has_required header_table \<and> rows header_table = []
   \<and> fst (exec (bays29_block sample_lib header_table) (loaded_world dir_headers)) = None
   \<and> files (snd (exec (bays29_block sample_lib header_table) (loaded_world dir_headers)))
        ''bays29_benchmark.png'' = Some (encode_png sample_lib (chart ''bays29'' header_table))
   \<and> fst (exec (brg180_block sample_lib header_table) (loaded_world dir_headers)) = None
   \<and> map (\<lambda>a. map (\<lambda>l. (xdata l, ydata l)) (lines a)) (axs (chart ''brg180'' header_table)) =
       [[([], []), ([], [])], [([], []), ([], [])]]"
proof -
  have r: "rows header_table = []"
    by (simp add: header_table_def)
  from empty_table_renders [OF sample_columns(2) r, of sample_lib "loaded_world dir_headers"]
  show ?thesis
    using sample_columns(2) r by simp
qed

subsection \<open>C8: the label of the time axis\<close>

text \<open>
  C8, as stated, asks for the y label \<^verbatim>\<open>Time\<close> on the right plot. Lines 30 and 57 set it to
  \<^verbatim>\<open>Time\<close> followed by the unit in parentheses, and that is what both saved figures carry.
\<close>

theorem time_axis_label_counterexample:
  "ylabel_of (axs (snd (saved_figures (snd (run sample_lib dir_good)) ! 0)) ! 1) = ''Time ('' @ micro # ''s)''
   \<and> ylabel_of (axs (snd (saved_figures (snd (run sample_lib dir_good)) ! 0)) ! 1) \<noteq> ''Time''
   \<and> ylabel_of (axs (snd (saved_figures (snd (run sample_lib dir_good)) ! 1)) ! 1) \<noteq> ''Time''"
proof -
  have "saved_figures (snd (run sample_lib dir_good)) =
         [(''bays29_benchmark.png'', chart ''bays29'' sample_table),
          (''brg180_benchmark.png'', chart ''brg180'' sample_table)]"
    using run_ok [of dir_good sample_csv sample_lib sample_table sample_csv sample_table]
    by (simp add: sample_dirs sample_parses sample_columns saved_figures_def
          saved_startup_calls saved_block_calls)
  then show ?thesis
    by (simp add: chart_def)
qed

text \<open>
  C8, amended. Every figure that a run hands to \<^verbatim>\<open>savefig\<close> has two plot areas, the second
  one at place 2 of the 1 by 2 grid, and its y label is \<^verbatim>\<open>Time\<close> followed by the unit
  (micro sign, \<^verbatim>\<open>s\<close>) in parentheses.
\<close>

theorem time_axis_label:
  "\<forall>p fg. (p, fg) \<in> set (saved_figures (snd (run L fs))) \<longrightarrow>
      length (axs fg) = 2
    \<and> geometry (axs fg ! 1) = (1, 2, 2)
    \<and> ylabel_of (axs fg ! 1) = ''Time ('' @ micro # ''s)''"
  using run_saved_figures [of L fs] by (auto simp add: chart_def)

theorem time_axis_label_witness:
  "(''bays29_benchmark.png'', chart ''bays29'' sample_table) \<in> set (saved_figures (snd (run sample_lib dir_good)))
   \<and> length (axs (chart ''bays29'' sample_table)) = 2
   \<and> geometry (axs (chart ''bays29'' sample_table) ! 1) = (1, 2, 2)
   \<and> ylabel_of (axs (chart ''bays29'' sample_table) ! 1) = ''Time ('' @ micro # ''s)''"
proof -
  have m: "(''bays29_benchmark.png'', chart ''bays29'' sample_table) \<in> set (saved_figures (snd (run sample_lib dir_good)))"
    using run_ok [of dir_good sample_csv sample_lib sample_table sample_csv sample_table]
    by (simp add: sample_dirs sample_parses sample_columns saved_figures_def
          saved_startup_calls saved_block_calls)
  from time_axis_label [of sample_lib dir_good] m show ?thesis
    by blast
qed

subsection \<open>C9: both loads come first\<close>

text \<open>
  C9. If a run changes a file, leaves a figure open or makes any pyplot call, then both
  input files exist and parse, and the first three calls of the run are the backend choice
  and the two loads; a pyplot call is never among the first three calls. In particular,
  when the brg180 input does not exist the run fails, no file is changed and \<^verbatim>\<open>savefig\<close> is
  never called, whatever the bays29 input is.
\<close>

theorem loads_before_rendering:
  "((files (snd (run L fs)) \<noteq> fs \<or> figures (snd (run L fs)) \<noteq> []
      \<or> (\<exists>c \<in> set (calls (snd (run L fs))). is_pyplot c)) \<longrightarrow>
        (\<exists>t1 df1 t2 df2.
            fs ''bays29_benchmark_results.csv'' = Some t1 \<and> parse_csv L t1 = Some df1
          \<and> fs ''brg180_benchmark_results.csv'' = Some t2 \<and> parse_csv L t2 = Some df2)
      \<and> take 3 (calls (snd (run L fs))) = startup_calls)
   \<and> (\<forall>i. i < length (calls (snd (run L fs))) \<and> is_pyplot (calls (snd (run L fs)) ! i) \<longrightarrow> 3 \<le> i)
   \<and> (fs ''brg180_benchmark_results.csv'' = None \<longrightarrow>
        fst (run L fs) \<noteq> None \<and> files (snd (run L fs)) = fs \<and> saved_figures (snd (run L fs)) = [])"
proof (cases rule: run_cases [where fs = fs and L = L])
  case no_bays29
  show ?thesis
    unfolding run_no_bays29_file [of fs L, OF no_bays29] by (auto simp add: saved_figures_def nth_Cons')
next
  case (bad_bays29 t1)
  show ?thesis
    unfolding run_bad_bays29_file [of fs t1 L, OF bad_bays29] by (auto simp add: saved_figures_def nth_Cons')
next
  case (no_brg180 t1 df1)
  show ?thesis
    unfolding run_no_brg180_file [of fs t1 L df1, OF no_brg180] by (auto simp add: saved_figures_def nth_Cons')
next
  case (bad_brg180 t1 df1 t2)
  show ?thesis
    unfolding run_bad_brg180_file [of fs t1 L df1 t2, OF bad_brg180] using bad_brg180 by (auto simp add: nth_Cons')
next
  case (fail_bays29 t1 df1 t2 df2)
  from run_fails_in_bays29 [OF fail_bays29]
  obtain n where c: "calls (snd (run L fs)) = startup_calls @ take n (block_calls ''bays29'' df1)"
    by blast
  have "take 3 (calls (snd (run L fs))) = startup_calls"
    unfolding c by (simp add: length_startup_calls)
  moreover have "\<forall>i. i < length (calls (snd (run L fs))) \<and> is_pyplot (calls (snd (run L fs)) ! i) \<longrightarrow> 3 \<le> i"
    unfolding c using pyplot_after_startup by blast
  ultimately show ?thesis
    using fail_bays29 by simp
next
  case (fail_brg180 t1 df1 t2 df2)
  from run_fails_in_brg180 [OF fail_brg180]
  obtain n where c: "calls (snd (run L fs)) =
      startup_calls @ block_calls ''bays29'' df1 @ take n (block_calls ''brg180'' df2)"
    by blast
  have "take 3 (calls (snd (run L fs))) = startup_calls"
    unfolding c by (simp add: length_startup_calls)
  moreover have "\<forall>i. i < length (calls (snd (run L fs))) \<and> is_pyplot (calls (snd (run L fs)) ! i) \<longrightarrow> 3 \<le> i"
    unfolding c using pyplot_after_startup by blast
  ultimately show ?thesis
    using fail_brg180 by simp
next
  case (ok t1 df1 t2 df2)
  have c: "calls (snd (run L fs)) =
      startup_calls @ block_calls ''bays29'' df1 @ block_calls ''brg180'' df2"
    unfolding run_ok [OF ok] by simp
  have "take 3 (calls (snd (run L fs))) = startup_calls"
    unfolding c by (simp add: length_startup_calls)
  moreover have "\<forall>i. i < length (calls (snd (run L fs))) \<and> is_pyplot (calls (snd (run L fs)) ! i) \<longrightarrow> 3 \<le> i"
    unfolding c using pyplot_after_startup by blast
  ultimately show ?thesis
    using ok by simp
qed

theorem loads_before_rendering_witness:
  "files (snd (run sample_lib dir_good)) \<noteq> dir_good
   \<and> take 3 (calls (snd (run sample_lib dir_good))) = startup_calls
   \<and> dir_no_brg180 ''brg180_benchmark_results.csv'' = None
   \<and> dir_no_brg180 ''bays29_benchmark_results.csv'' = Some sample_csv
   \<and> fst (run sample_lib dir_no_brg180) \<noteq> None
   \<and> files (snd (run sample_lib dir_no_brg180)) = dir_no_brg180
   \<and> saved_figures (snd (run sample_lib dir_no_brg180)) = []"
proof -
  have "files (snd (run sample_lib dir_good)) ''bays29_benchmark.png'' \<noteq> dir_good ''bays29_benchmark.png''"
    using run_ok [of dir_good sample_csv sample_lib sample_table sample_csv sample_table]
    by (simp add: sample_dirs sample_parses sample_columns sample_dirs_no_png)
  then have d: "files (snd (run sample_lib dir_good)) \<noteq> dir_good"
    by auto
  from loads_before_rendering [of sample_lib dir_good] d
    loads_before_rendering [of sample_lib dir_no_brg180]
  show ?thesis
    by (simp add: sample_dirs)
qed

subsection \<open>C10: nothing else is written\<close>

text \<open>
  C10. After a run without error every path other than the two output paths holds what it
  held before, in particular the two input files, and \<^verbatim>\<open>savefig\<close> has been called exactly
  twice, once for each output path.
\<close>

theorem only_outputs_written:
  assumes "fst (run L fs) = None"
  shows "(\<forall>p. p \<noteq> ''bays29_benchmark.png'' \<and> p \<noteq> ''brg180_benchmark.png'' \<longrightarrow>
            files (snd (run L fs)) p = fs p)
       \<and> files (snd (run L fs)) ''bays29_benchmark_results.csv'' = fs ''bays29_benchmark_results.csv''
       \<and> files (snd (run L fs)) ''brg180_benchmark_results.csv'' = fs ''brg180_benchmark_results.csv''
       \<and> map fst (saved_figures (snd (run L fs))) = [''bays29_benchmark.png'', ''brg180_benchmark.png'']"
proof (cases rule: run_cases [where fs = fs and L = L])
  case no_bays29
  with assms show ?thesis using run_no_bays29_file [of fs L] by simp
next
  case (bad_bays29 t1)
  with assms show ?thesis using run_bad_bays29_file [of fs t1 L] by simp
next
  case (no_brg180 t1 df1)
  with assms show ?thesis using run_no_brg180_file [of fs t1 L df1] by simp
next
  case (bad_brg180 t1 df1 t2)
  with assms show ?thesis using run_bad_brg180_file [of fs t1 L df1 t2] by simp
next
  case (fail_bays29 t1 df1 t2 df2)
  from run_fails_in_bays29 [OF fail_bays29] assms show ?thesis by simp
next
  case (fail_brg180 t1 df1 t2 df2)
  from run_fails_in_brg180 [OF fail_brg180] assms show ?thesis by simp
next
  case (ok t1 df1 t2 df2)
  show ?thesis
    unfolding run_ok [OF ok]
    by (simp add: saved_figures_def saved_startup_calls saved_block_calls)
qed

theorem only_outputs_written_witness:
  "fst (run sample_lib dir_good) = None
   \<and> files (snd (run sample_lib dir_good)) ''bays29_benchmark_results.csv'' = Some sample_csv
   \<and> files (snd (run sample_lib dir_good)) ''brg180_benchmark_results.csv'' = Some sample_csv
   \<and> files (snd (run sample_lib dir_good)) ''notes.txt'' = None
   \<and> map fst (saved_figures (snd (run sample_lib dir_good))) =
       [''bays29_benchmark.png'', ''brg180_benchmark.png'']"
proof -
  have ok: "fst (run sample_lib dir_good) = None"
    using run_ok [of dir_good sample_csv sample_lib sample_table sample_csv sample_table]
    by (simp add: sample_dirs sample_parses sample_columns)
  have n: "dir_good ''notes.txt'' = None"
    by (simp add: dir_good_def)
  from only_outputs_written [OF ok] ok n show ?thesis
    by (simp add: sample_dirs)
qed

end
